theory Spec2Isabelle
  imports Main "HOL-Library.Sublist"
begin

section \<open>The API generator script \<^verbatim>\<open>frontend/scripts/gen-api.py\<close>\<close>

text \<open>
  The script builds one shell command from its own location and runs it:
  \<^verbatim>\<open>
  def main():
      script_file = pathlib.Path(__file__)
      project_root = script_file.parent.parent
      spec = project_root / "openapi.json"
      generated = project_root / "src" / "api" / "generated"
      config = generated / "config.json"

      command = f"npx @openapitools/openapi-generator-cli generate -g typescript-fetch -i {spec} -o {generated} -c {config}"
      print(command)
      os.system(command)

  if __name__ == '__main__':
      main()
  \<close>
  The library code with content is \<^verbatim>\<open>pathlib\<close> (the constructor, \<^verbatim>\<open>parent\<close>, the
  operator \<^verbatim>\<open>/\<close> and the conversion to a string done by the f-string), \<^verbatim>\<open>print\<close> with
  the buffering of \<^verbatim>\<open>sys.stdout\<close>, and the value the interpreter gives \<^verbatim>\<open>__file__\<close>. The
  path operations are the pure-path ones, modelled below for the POSIX flavour (separator
  \<^verbatim>\<open>/\<close>, no drive), the platform of a \<^verbatim>\<open>#!/usr/bin/env python3\<close> script.
\<close>

subsection \<open>Pure paths\<close>

text \<open>
  A parsed path is its root (\<^verbatim>\<open>""\<close> for a relative path, \<^verbatim>\<open>"/"\<close>, or \<^verbatim>\<open>"//"\<close> when the text
  starts with exactly two slashes) and the list of its components after the root.
\<close>

record pure_path =
  root :: string
  tail :: "string list"

text \<open>\<^verbatim>\<open>str.split(sep)\<close> for a one-character separator: \<^verbatim>\<open>"".split("/") == [""]\<close>.\<close>

fun split :: "char \<Rightarrow> string \<Rightarrow> string list" where
  "split sep [] = [[]]"
| "split sep (c # cs) =
     (if c = sep then [] # split sep cs
      else (case split sep cs of
              [] \<Rightarrow> [[c]]
            | w # ws \<Rightarrow> (c # w) # ws))"

text \<open>\<^verbatim>\<open>sep.join(xs)\<close>.\<close>

fun join :: "string \<Rightarrow> string list \<Rightarrow> string" where
  "join sep [] = []"
| "join sep [x] = x"
| "join sep (x # y # ys) = x @ sep @ join sep (y # ys)"

text \<open>
  \<^verbatim>\<open>posixpath.splitroot\<close>, without the drive (always empty on POSIX):
  \<^verbatim>\<open>
  if p[:1] != sep:                       return '', '', p
  elif p[1:2] != sep or p[2:3] == sep:   return '', sep, p[1:]
  else:                                  return '', p[:2], p[2:]
  \<close>
\<close>

definition splitroot :: "string \<Rightarrow> string \<times> string" where
  "splitroot p =
     (if take 1 p \<noteq> ''/'' then ('''', p)
      else if take 1 (drop 1 p) \<noteq> ''/'' \<or> take 1 (drop 2 p) = ''/'' then (''/'', drop 1 p)
      else (take 2 p, drop 2 p))"

text \<open>
  \<^verbatim>\<open>pathlib.Path(s)\<close>: the text is split at the root, the rest at every separator, and
  empty components and \<^verbatim>\<open>.\<close> are dropped (\<^verbatim>\<open>..\<close> is kept: nothing is resolved against the
  file system).
\<close>

definition Path :: "string \<Rightarrow> pure_path" where
  "Path s =
     (if s = [] then \<lparr>root = '''', tail = []\<rparr>
      else (let (r, rel) = splitroot s
            in \<lparr>root = r, tail = filter (\<lambda>x. x \<noteq> [] \<and> x \<noteq> ''.'') (split CHR ''/'' rel)\<rparr>))"

text \<open>\<^verbatim>\<open>p.parent\<close>: a path with no component is its own parent.\<close>

definition parent :: "pure_path \<Rightarrow> pure_path" where
  "parent p = (if tail p = [] then p else \<lparr>root = root p, tail = butlast (tail p)\<rparr>)"

text \<open>\<^verbatim>\<open>p / key\<close> for a string \<^verbatim>\<open>key\<close>: an absolute key replaces \<^verbatim>\<open>p\<close>, a relative one extends it.\<close>

definition truediv :: "pure_path \<Rightarrow> string \<Rightarrow> pure_path" where
  "truediv p key =
     (let q = Path key
      in if root q \<noteq> [] then q else \<lparr>root = root p, tail = tail p @ tail q\<rparr>)"

text \<open>\<^verbatim>\<open>str(p)\<close>, which is what \<^verbatim>\<open>{p}\<close> in an f-string inserts: the empty path prints as \<^verbatim>\<open>.\<close>.\<close>

definition str_path :: "pure_path \<Rightarrow> string" where
  "str_path p = (let s = root p @ join ''/'' (tail p) in if s = [] then ''.'' else s)"

subsection \<open>The local variables of \<^verbatim>\<open>main\<close>\<close>

text \<open>Each local of \<^verbatim>\<open>main\<close> as a function of \<^verbatim>\<open>__file__\<close>, in the order of the source.\<close>

definition script_file :: "string \<Rightarrow> pure_path" where
  "script_file file = Path file"

definition project_root :: "string \<Rightarrow> pure_path" where
  "project_root file = parent (parent (script_file file))"

definition spec :: "string \<Rightarrow> pure_path" where
  "spec file = truediv (project_root file) ''openapi.json''"

definition generated :: "string \<Rightarrow> pure_path" where
  "generated file = truediv (truediv (truediv (project_root file) ''src'') ''api'') ''generated''"

definition config :: "string \<Rightarrow> pure_path" where
  "config file = truediv (generated file) ''config.json''"

definition command :: "string \<Rightarrow> string" where
  "command file =
     ''npx @openapitools/openapi-generator-cli generate -g typescript-fetch -i '' @ str_path (spec file)
       @ '' -o '' @ str_path (generated file)
       @ '' -c '' @ str_path (config file)"

subsection \<open>The interpreter: \<^verbatim>\<open>__file__\<close> and \<^verbatim>\<open>sys.stdout\<close>\<close>

text \<open>
  The script reads \<^verbatim>\<open>__file__\<close> and writes to \<^verbatim>\<open>sys.stdout\<close>; both are set up by the
  interpreter, modelled here as CPython 3.11 does it on POSIX.

  \<^verbatim>\<open>__file__\<close> of the main module is the path of the script as it was given to the
  interpreter, made absolute on the text alone: an absolute path is kept, a relative one is
  put after the working directory and a separator. Nothing is normalised.
\<close>

definition abspath :: "string \<Rightarrow> string \<Rightarrow> string" where
  "abspath dir path =
     (if path = [] \<or> path = ''.'' then dir
      else if take 1 path = ''/'' then path
      else dir @ ''/'' @ path)"

text \<open>
  \<^verbatim>\<open>sys.stdout\<close> is a text layer over a binary layer over the file descriptor. The
  interpreter sets it up in one of three ways: with \<^verbatim>\<open>-u\<close> or \<^verbatim>\<open>PYTHONUNBUFFERED\<close> the
  text layer writes through to the raw file; on a terminal the text layer is line-buffered
  over a buffer of the given size; otherwise (a pipe, a file) it is block-buffered.
\<close>

datatype stdio = Unbuffered | Line_buffered nat | Block_buffered nat

fun write_through :: "stdio \<Rightarrow> bool" where
  "write_through Unbuffered = True"
| "write_through (Line_buffered n) = False"
| "write_through (Block_buffered n) = False"

fun line_buffering :: "stdio \<Rightarrow> bool" where
  "line_buffering Unbuffered = False"
| "line_buffering (Line_buffered n) = True"
| "line_buffering (Block_buffered n) = False"

text \<open>The text layer hands its pending text down once it holds this many bytes.\<close>

definition chunk_size :: nat where
  "chunk_size = 8192"

text \<open>
  What a run can observe of its surroundings: the path of the script as given to the
  interpreter, \<^verbatim>\<open>__name__\<close>, the working directory, the command-line arguments after the
  script, the environment, the set-up of standard output, and the operating system behind
  \<^verbatim>\<open>os.system\<close>. Given the command line and the working directory and environment the
  subordinate process inherits, \<open>shell\<close> yields the status \<^verbatim>\<open>os.system\<close> returns, or
  \<open>None\<close> when the subordinate process never completes. A mocked execution step is a
  world with another \<open>shell\<close>.
\<close>

record world =
  script_path :: string
  dunder_name :: string
  cwd :: string
  argv :: "string list"
  environ :: "(string \<times> string) list"
  stdout :: stdio
  shell :: "string \<Rightarrow> string \<Rightarrow> (string \<times> string) list \<Rightarrow> int option"

text \<open>\<^verbatim>\<open>__file__\<close> in a world.\<close>

definition dunder_file :: "world \<Rightarrow> string" where
  "dunder_file w = abspath (cwd w) (script_path w)"

text \<open>
  The effects of a Python program on its surroundings, as far as the specification speaks
  of them: bytes written to the standard output descriptor, a command handed to the shell,
  and the file-system operations (none of which the script calls).
\<close>

datatype event =
    Stdout_write string
  | Shell_exec string
  | File_open string
  | File_stat string
  | File_create string

type_synonym trace = "event list"

text \<open>
  The state of a run: the effects so far, in order, and the text that \<^verbatim>\<open>sys.stdout\<close>
  still holds: \<open>buffered\<close> in the binary layer, \<open>pending\<close> in the text layer.
\<close>

record io =
  effects :: trace
  buffered :: string
  pending :: string

definition startup :: io where
  "startup = \<lparr>effects = [], buffered = [], pending = []\<rparr>"

datatype 'a outcome = Returned 'a | Blocked

text \<open>
  A write to the descriptor. It is taken to succeed and to take all the bytes: a standard
  output that refuses the text is outside this model. A write of no bytes shows nothing.
\<close>

definition raw_write :: "string \<Rightarrow> io \<Rightarrow> io" where
  "raw_write b s = (if b = [] then s else s\<lparr>effects := effects s @ [Stdout_write b]\<rparr>)"

text \<open>\<^verbatim>\<open>BufferedWriter.flush\<close>.\<close>

definition buffer_flush :: "io \<Rightarrow> io" where
  "buffer_flush s = raw_write (buffered s) (s\<lparr>buffered := []\<rparr>)"

text \<open>
  \<^verbatim>\<open>BufferedWriter.write\<close> with a buffer of \<open>n\<close> bytes: bytes that fit are kept;
  otherwise the buffer is written out first, and then the bytes are written if they are
  more than a buffer, kept if not.
\<close>

definition buffered_write :: "nat \<Rightarrow> string \<Rightarrow> io \<Rightarrow> io" where
  "buffered_write n b s =
     (if length (buffered s) + length b \<le> n then s\<lparr>buffered := buffered s @ b\<rparr>
      else (let s1 = buffer_flush s
            in if n < length b then raw_write b s1 else s1\<lparr>buffered := b\<rparr>))"

text \<open>The \<^verbatim>\<open>write\<close> of the layer under the text layer: the raw file or the buffer.\<close>

fun buffer_write :: "stdio \<Rightarrow> string \<Rightarrow> io \<Rightarrow> io" where
  "buffer_write Unbuffered b s = raw_write b s"
| "buffer_write (Line_buffered n) b s = buffered_write n b s"
| "buffer_write (Block_buffered n) b s = buffered_write n b s"

text \<open>The text layer hands its pending text down.\<close>

definition text_writeflush :: "stdio \<Rightarrow> io \<Rightarrow> io" where
  "text_writeflush m s =
     (if pending s = [] then s else buffer_write m (pending s) (s\<lparr>pending := []\<rparr>))"

text \<open>
  \<^verbatim>\<open>sys.stdout.write(text)\<close>: a text of a chunk or more sends the pending text down first;
  the text is added to the pending text; the pending text goes down when it has reached a
  chunk, when the layer writes through, or when it is line-buffered and the text has a line
  end, and in the last case the buffer below is flushed as well.
\<close>

definition text_write :: "stdio \<Rightarrow> string \<Rightarrow> io \<Rightarrow> io" where
  "text_write m text s =
     (let needflush = (line_buffering m \<and> (CHR 0x0A \<in> set text \<or> CHR 0x0D \<in> set text));
          s1 = (if chunk_size \<le> length text then text_writeflush m s else s);
          s2 = s1\<lparr>pending := pending s1 @ text\<rparr>;
          s3 = (if chunk_size \<le> length (pending s2) \<or> needflush \<or> write_through m
                then text_writeflush m s2 else s2)
      in if needflush then buffer_flush s3 else s3)"

text \<open>\<^verbatim>\<open>sys.stdout.flush()\<close>, which the interpreter also calls when it exits.\<close>

definition text_flush :: "stdio \<Rightarrow> io \<Rightarrow> io" where
  "text_flush m s = buffer_flush (text_writeflush m s)"

text \<open>
  \<^verbatim>\<open>print(text)\<close> writes \<open>text\<close> and then a newline to \<^verbatim>\<open>sys.stdout\<close>, and does not
  flush.
\<close>

definition py_print :: "stdio \<Rightarrow> string \<Rightarrow> io \<Rightarrow> io" where
  "py_print m text s = text_write m [CHR 0x0A] (text_write m text s)"

text \<open>
  \<^verbatim>\<open>os.system(cmd)\<close> hands \<open>cmd\<close> to the shell in the caller's working directory and
  environment, and returns its status once the subordinate process has completed. It does
  not touch \<^verbatim>\<open>sys.stdout\<close>.
\<close>

definition os_system :: "world \<Rightarrow> string \<Rightarrow> io \<Rightarrow> int option \<times> io" where
  "os_system w cmd s = (shell w cmd (cwd w) (environ w), s\<lparr>effects := effects s @ [Shell_exec cmd]\<rparr>)"

subsection \<open>The run\<close>

text \<open>
  \<^verbatim>\<open>main\<close>: the status returned by \<^verbatim>\<open>os.system\<close> is dropped, and the function returns
  \<^verbatim>\<open>None\<close> (here \<open>()\<close>) once the call has returned.
\<close>

definition main :: "world \<Rightarrow> io \<Rightarrow> unit outcome \<times> io" where
  "main w s =
     (let cmd = command (dunder_file w);
          s1 = py_print (stdout w) cmd s;
          (status, s2) = os_system w cmd s1
      in (case status of
            None \<Rightarrow> (Blocked, s2)
          | Some _ \<Rightarrow> (Returned (), s2)))"

text \<open>The module body: \<^verbatim>\<open>if __name__ == '__main__': main()\<close>.\<close>

definition script :: "world \<Rightarrow> io \<Rightarrow> unit outcome \<times> io" where
  "script w s = (if dunder_name w = ''__main__'' then main w s else (Returned (), s))"

text \<open>
  The whole run of the interpreter on the script: when the module body has run to its end,
  the interpreter flushes \<^verbatim>\<open>sys.stdout\<close> and exits.
\<close>

definition python3 :: "world \<Rightarrow> io \<Rightarrow> unit outcome \<times> io" where
  "python3 w s =
     (case script w s of
        (Returned x, s1) \<Rightarrow> (Returned x, text_flush (stdout w) s1)
      | (Blocked, s1) \<Rightarrow> (Blocked, s1))"

text \<open>
  The exit status of the interpreter: \<open>0\<close> when the module body has run to its end;
  there is none while the run is blocked.
\<close>

definition exit_status :: "unit outcome \<times> io \<Rightarrow> int option" where
  "exit_status r = (case fst r of Returned _ \<Rightarrow> Some 0 | Blocked \<Rightarrow> None)"

text \<open>Projections of a trace: the commands executed, the writes to standard output.\<close>

fun executed :: "trace \<Rightarrow> string list" where
  "executed [] = []"
| "executed (Shell_exec c # es) = c # executed es"
| "executed (e # es) = executed es"

fun printed :: "trace \<Rightarrow> string list" where
  "printed [] = []"
| "printed (Stdout_write s # es) = s # printed es"
| "printed (e # es) = printed es"


fun is_stdout_write :: "event \<Rightarrow> bool" where
  "is_stdout_write (Stdout_write b) = True"
| "is_stdout_write e = False"

text \<open>
  All the text the program has written to \<^verbatim>\<open>sys.stdout\<close> so far: what has reached the
  descriptor, then what the two layers still hold.
\<close>

definition stdout_text :: "io \<Rightarrow> string" where
  "stdout_text s = concat (printed (effects s)) @ buffered s @ pending s"

subsection \<open>Notions of the specification\<close>

text \<open>
  The text \<^verbatim>\<open>R/rel\<close> for a directory \<open>R\<close> and a relative offset \<open>rel\<close>, as the
  specification writes it: the text of \<open>R\<close>, a separator, the offset; when \<open>R\<close> has no
  component (it is \<^verbatim>\<open>/\<close>, \<^verbatim>\<open>//\<close> or the empty relative path) its root alone comes before
  the offset.
\<close>

definition path_under :: "pure_path \<Rightarrow> string \<Rightarrow> string" where
  "path_under R rel = (if tail R = [] then root R @ rel else str_path R @ ''/'' @ rel)"

text \<open>
  The location of the script: the file that \<^verbatim>\<open>__file__\<close> names in a file system without
  symbolic links, where every \<^verbatim>\<open>..\<close> undoes the component before it (and stays at the root
  when there is none).
\<close>

fun collapse :: "string list \<Rightarrow> string list \<Rightarrow> string list" where
  "collapse seen [] = rev seen"
| "collapse seen (c # cs) =
     (if c = ''..'' then collapse (case seen of [] \<Rightarrow> [] | d # ds \<Rightarrow> ds) cs
      else collapse (c # seen) cs)"

definition location :: "world \<Rightarrow> pure_path" where
  "location w =
     (let p = Path (dunder_file w) in \<lparr>root = root p, tail = collapse [] (tail p)\<rparr>)"

text \<open>
  A run of the script as the main program on a terminal: the script given as \<open>file\<close>, in
  the working directory \<open>dir\<close>, with the arguments \<open>args\<close> and the environment \<open>env\<close>,
  on a system where every subordinate command ends as \<open>st\<close> says. \<open>piped\<close> is the same
  run with standard output sent to a pipe or a file.
\<close>

definition run_at ::
  "string \<Rightarrow> string \<Rightarrow> string list \<Rightarrow> (string \<times> string) list \<Rightarrow> int option \<Rightarrow> world" where
  "run_at file dir args env st =
     \<lparr>script_path = file, dunder_name = ''__main__'', cwd = dir, argv = args, environ = env,
      stdout = Line_buffered 8192, shell = (\<lambda>cmd d e. st)\<rparr>"

definition piped :: "world \<Rightarrow> world" where
  "piped w = w\<lparr>stdout := Block_buffered 4096\<rparr>"

text \<open>
  A name that can stand as one component of a path text: not empty, not \<^verbatim>\<open>.\<close>, and
  without a separator.
\<close>

definition component :: "string \<Rightarrow> bool" where
  "component c = (c \<noteq> [] \<and> c \<noteq> ''.'' \<and> CHR ''/'' \<notin> set c)"

text \<open>
  A state that can arise with the set-up \<open>m\<close>: when the text layer writes through to
  the raw file there is no buffer, so nothing is buffered.
\<close>

definition fits :: "stdio \<Rightarrow> io \<Rightarrow> bool" where
  "fits m s = (m = Unbuffered \<longrightarrow> buffered s = [])"

section \<open>Properties\<close>

subsection \<open>Path algebra\<close>

text \<open>The five literals of the source are single relative components.\<close>

lemma Path_openapi: "Path ''openapi.json'' = \<lparr>root = [], tail = [''openapi.json'']\<rparr>"
  by (simp add: Path_def splitroot_def)

lemma Path_src: "Path ''src'' = \<lparr>root = [], tail = [''src'']\<rparr>"
  by (simp add: Path_def splitroot_def)

lemma Path_api: "Path ''api'' = \<lparr>root = [], tail = [''api'']\<rparr>"
  by (simp add: Path_def splitroot_def)

lemma Path_generated: "Path ''generated'' = \<lparr>root = [], tail = [''generated'']\<rparr>"
  by (simp add: Path_def splitroot_def)

lemma Path_config: "Path ''config.json'' = \<lparr>root = [], tail = [''config.json'']\<rparr>"
  by (simp add: Path_def splitroot_def)

lemma spec_eq:
  "spec file = \<lparr>root = root (project_root file), tail = tail (project_root file) @ [''openapi.json'']\<rparr>"
  by (simp add: spec_def truediv_def Path_openapi)

lemma generated_eq:
  "generated file = \<lparr>root = root (project_root file),
      tail = tail (project_root file) @ [''src'', ''api'', ''generated'']\<rparr>"
  by (simp add: generated_def truediv_def Path_src Path_api Path_generated)

lemma config_eq:
  "config file = \<lparr>root = root (project_root file),
      tail = tail (project_root file) @ [''src'', ''api'', ''generated'', ''config.json'']\<rparr>"
  by (simp add: config_def generated_eq truediv_def Path_config)

lemma join_snoc: "join sep (xs @ [x]) = (if xs = [] then x else join sep xs @ sep @ x)"
  by (induction sep xs rule: join.induct) auto

lemma join_nonempty: "xs \<noteq> [] \<Longrightarrow> [] \<notin> set xs \<Longrightarrow> join sep xs \<noteq> []"
  by (induction sep xs rule: join.induct) auto

lemma tail_Path_nonempty: "[] \<notin> set (tail (Path s))"
  by (auto simp: Path_def split: prod.splits)

lemma tail_parent: "[] \<notin> set (tail p) \<Longrightarrow> [] \<notin> set (tail (parent p))"
  by (auto simp: parent_def dest: in_set_butlastD)

lemma tail_project_root_nonempty: "[] \<notin> set (tail (project_root file))"
  by (simp add: project_root_def script_file_def tail_parent tail_Path_nonempty)

lemma str_path_extend:
  "c \<noteq> [] \<Longrightarrow> [] \<notin> set (tail R) \<Longrightarrow>
   str_path \<lparr>root = root R, tail = tail R @ [c]\<rparr> = path_under R c"
  by (auto simp: str_path_def path_under_def join_snoc Let_def join_nonempty)






text \<open>Printing a well-formed path and parsing the text gives the path back.\<close>

lemma split_no_sep: "c \<notin> set x \<Longrightarrow> split c x = [x]"
  by (induction x) auto

lemma split_append_sep: "c \<notin> set x \<Longrightarrow> split c (x @ c # ys) = x # split c ys"
  by (induction x) auto

lemma split_join:
  "xs \<noteq> [] \<Longrightarrow> \<forall>x\<in>set xs. c \<notin> set x \<Longrightarrow> split c (join [c] xs) = xs"
  by (induction "[c]" xs rule: join.induct) (auto simp: split_no_sep split_append_sep)

lemma take1_join:
  "xs \<noteq> [] \<Longrightarrow> \<forall>x\<in>set xs. component x \<Longrightarrow> take 1 (join ''/'' xs) \<noteq> ''/''"
  by (induction "''/''" xs rule: join.induct) (auto simp: component_def neq_Nil_conv)

lemma Path_str_path:
  assumes r: "r = [] \<or> r = ''/'' \<or> r = ''//''" and cs: "\<forall>c\<in>set cs. component c"
  shows "Path (str_path \<lparr>root = r, tail = cs\<rparr>) = \<lparr>root = r, tail = cs\<rparr>"
proof (cases "cs = []")
  case True
  with r show ?thesis by (auto simp: str_path_def Path_def splitroot_def)
next
  case False
  define j where "j = join ''/'' cs"
  have t: "take 1 j \<noteq> ''/''" unfolding j_def using False cs by (rule take1_join)
  from cs have "[] \<notin> set cs" by (auto simp: component_def)
  with False have ne: "j \<noteq> []" unfolding j_def by (rule join_nonempty)
  have sp: "split CHR ''/'' j = cs"
    unfolding j_def using False cs by (auto intro!: split_join simp: component_def)
  have f: "filter (\<lambda>x. x \<noteq> [] \<and> x \<noteq> ''.'') cs = cs"
    using cs by (auto simp: component_def intro!: filter_True)
  have sr: "splitroot (r @ j) = (r, j)"
    using r t ne by (auto simp: splitroot_def neq_Nil_conv)
  have "str_path \<lparr>root = r, tail = cs\<rparr> = r @ j"
    using ne by (simp add: str_path_def j_def)
  with ne sr sp f show ?thesis by (simp add: Path_def)
qed

text \<open>
  So a script at \<^verbatim>\<open>R/d/f\<close> has the project root \<open>R\<close>, whatever the names \<open>d\<close> and \<open>f\<close>.
\<close>

lemma project_root_of_layout:
  assumes "r = [] \<or> r = ''/'' \<or> r = ''//''" and "\<forall>c\<in>set cs. component c"
    and "component d" and "component f"
  shows "project_root (str_path \<lparr>root = r, tail = cs @ [d, f]\<rparr>) = \<lparr>root = r, tail = cs\<rparr>"
proof -
  from assms have "\<forall>c\<in>set (cs @ [d, f]). component c" by auto
  with assms(1) have "Path (str_path \<lparr>root = r, tail = cs @ [d, f]\<rparr>) = \<lparr>root = r, tail = cs @ [d, f]\<rparr>"
    by (rule Path_str_path)
  then show ?thesis
    by (simp add: project_root_def script_file_def parent_def butlast_append)
qed

text \<open>No operation on paths brings in a character other than the separator and the dot.\<close>

lemma split_chars_all: "\<forall>w\<in>set (split c s). set w \<subseteq> set s"
  by (induction s) (auto split: if_splits list.splits)

lemma split_chars: "w \<in> set (split c s) \<Longrightarrow> set w \<subseteq> set s"
  using split_chars_all by blast

lemma splitroot_chars: "set (fst (splitroot p)) \<subseteq> set p \<and> set (snd (splitroot p)) \<subseteq> set p"
proof -
  have "take 1 p = ''/'' \<Longrightarrow> CHR ''/'' \<in> set p"
    by (metis in_set_takeD list.set_intros(1))
  then show ?thesis
    by (auto simp: splitroot_def dest: in_set_takeD in_set_dropD)
qed

lemma Path_chars:
  "set (root (Path s)) \<subseteq> set s" "c \<in> set (tail (Path s)) \<Longrightarrow> set c \<subseteq> set s"
  using splitroot_chars [of s] split_chars [of c "CHR ''/''" "snd (splitroot s)"]
  by (auto simp: Path_def split: prod.splits if_splits)

lemma project_root_chars:
  "set (root (project_root P)) \<subseteq> set P"
  "c \<in> set (tail (project_root P)) \<Longrightarrow> set c \<subseteq> set P"
  using Path_chars(1) [of P] Path_chars(2) [of _ P]
  by (auto simp: project_root_def script_file_def parent_def dest!: in_set_butlastD split: if_splits)

lemma join_chars: "set (join sep xs) \<subseteq> set sep \<union> (\<Union>x\<in>set xs. set x)"
  by (induction sep xs rule: join.induct) auto

lemma str_path_chars:
  "set (str_path p) \<subseteq> set (root p) \<union> set ''/.'' \<union> (\<Union>x\<in>set (tail p). set x)"
  using join_chars [of "''/''" "tail p"] by (auto simp: str_path_def Let_def)

lemma extended_chars:
  "set (str_path \<lparr>root = root (project_root P), tail = tail (project_root P) @ cs\<rparr>)
     \<subseteq> set P \<union> set ''/.'' \<union> set (concat cs)"
  using str_path_chars [of "\<lparr>root = root (project_root P), tail = tail (project_root P) @ cs\<rparr>"]
    project_root_chars(1) [of P] project_root_chars(2) [of _ P]
  by (simp add: subset_iff) blast

lemma command_chars:
  "set (command P) \<subseteq> set P \<union> set ''npx @openapitools/openapi-generator-cli generate -g typescript-fetch -i -o -c openapi.json src/api/generated/config.json''"
proof -
  define fixed where "fixed = set ''npx @openapitools/openapi-generator-cli generate -g typescript-fetch -i -o -c openapi.json src/api/generated/config.json''"
  have l1: "set ''npx @openapitools/openapi-generator-cli generate -g typescript-fetch -i '' \<subseteq> fixed"
    unfolding fixed_def by simp
  have l2: "set '' -o '' \<subseteq> fixed" unfolding fixed_def by simp
  have l3: "set '' -c '' \<subseteq> fixed" unfolding fixed_def by simp
  have l4: "set ''/.'' \<subseteq> fixed" unfolding fixed_def by simp
  have s: "set (concat [''openapi.json'']) \<subseteq> fixed" unfolding fixed_def by simp
  have g: "set (concat [''src'', ''api'', ''generated'']) \<subseteq> fixed" unfolding fixed_def by simp
  have c: "set (concat [''src'', ''api'', ''generated'', ''config.json'']) \<subseteq> fixed"
    unfolding fixed_def by simp
  have ps: "set (str_path (spec P)) \<subseteq> set P \<union> fixed"
    using extended_chars [of P "[''openapi.json'']"] l4 s unfolding spec_eq by blast
  have pg: "set (str_path (generated P)) \<subseteq> set P \<union> fixed"
    using extended_chars [of P "[''src'', ''api'', ''generated'']"] l4 g unfolding generated_eq by blast
  have pc: "set (str_path (config P)) \<subseteq> set P \<union> fixed"
    using extended_chars [of P "[''src'', ''api'', ''generated'', ''config.json'']"] l4 c
    unfolding config_eq by blast
  have "set (command P) =
      set ''npx @openapitools/openapi-generator-cli generate -g typescript-fetch -i ''
      \<union> set (str_path (spec P)) \<union> set '' -o '' \<union> set (str_path (generated P))
      \<union> set '' -c '' \<union> set (str_path (config P))"
    by (simp only: command_def set_append Un_assoc)
  with l1 l2 l3 ps pg pc have "set (command P) \<subseteq> set P \<union> fixed" by blast
  then show ?thesis unfolding fixed_def .
qed

subsection \<open>Standard output\<close>

lemma printed_append: "printed (xs @ ys) = printed xs @ printed ys"
  by (induction xs rule: printed.induct) auto

lemma executed_append: "executed (xs @ ys) = executed xs @ executed ys"
  by (induction xs rule: executed.induct) auto

lemma executed_others: "executed (filter (\<lambda>e. \<not> is_stdout_write e) tr) = executed tr"
  by (induction tr rule: executed.induct) auto


text \<open>The operations of standard output add nothing but writes to standard output.\<close>

lemma raw_write_others:
  "filter (\<lambda>e. \<not> is_stdout_write e) (effects (raw_write b s))
     = filter (\<lambda>e. \<not> is_stdout_write e) (effects s)"
  by (simp add: raw_write_def)

lemma buffer_flush_others:
  "filter (\<lambda>e. \<not> is_stdout_write e) (effects (buffer_flush s))
     = filter (\<lambda>e. \<not> is_stdout_write e) (effects s)"
  by (simp add: buffer_flush_def raw_write_others)

lemma buffered_write_others:
  "filter (\<lambda>e. \<not> is_stdout_write e) (effects (buffered_write n b s))
     = filter (\<lambda>e. \<not> is_stdout_write e) (effects s)"
  by (simp add: buffered_write_def Let_def raw_write_others buffer_flush_others)

lemma buffer_write_others:
  "filter (\<lambda>e. \<not> is_stdout_write e) (effects (buffer_write m b s))
     = filter (\<lambda>e. \<not> is_stdout_write e) (effects s)"
  by (cases m) (simp_all add: raw_write_others buffered_write_others)

lemma text_writeflush_others:
  "filter (\<lambda>e. \<not> is_stdout_write e) (effects (text_writeflush m s))
     = filter (\<lambda>e. \<not> is_stdout_write e) (effects s)"
  by (simp add: text_writeflush_def buffer_write_others)

lemma text_write_others:
  "filter (\<lambda>e. \<not> is_stdout_write e) (effects (text_write m t s))
     = filter (\<lambda>e. \<not> is_stdout_write e) (effects s)"
  by (simp add: text_write_def Let_def buffer_flush_others text_writeflush_others)


lemma py_print_others:
  "filter (\<lambda>e. \<not> is_stdout_write e) (effects (py_print m t s))
     = filter (\<lambda>e. \<not> is_stdout_write e) (effects s)"
  by (simp add: py_print_def text_write_others)

text \<open>
  The text of standard output. In a state of a run the text layer sits over the buffer
  only when there is one: without a buffer, nothing is buffered.
\<close>

lemma raw_write_text:
  "buffered s = [] \<Longrightarrow> pending s = [] \<Longrightarrow> stdout_text (raw_write b s) = stdout_text s @ b"
  by (simp add: raw_write_def stdout_text_def printed_append)

lemma buffer_flush_text: "stdout_text (buffer_flush s) = stdout_text s"
  by (simp add: buffer_flush_def raw_write_def stdout_text_def printed_append)

lemma buffer_flush_fields: "buffered (buffer_flush s) = []" "pending (buffer_flush s) = pending s"
  by (simp_all add: buffer_flush_def raw_write_def)

lemma raw_write_fields: "buffered (raw_write b s) = buffered s" "pending (raw_write b s) = pending s"
  by (simp_all add: raw_write_def)

lemma buffered_write_text:
  "pending s = [] \<Longrightarrow> stdout_text (buffered_write n b s) = stdout_text s @ b"
proof -
  assume p: "pending s = []"
  have "stdout_text (raw_write b (buffer_flush s)) = stdout_text s @ b"
    using p by (simp add: raw_write_text buffer_flush_fields buffer_flush_text)
  moreover have "stdout_text ((buffer_flush s)\<lparr>buffered := b\<rparr>) = stdout_text s @ b"
    using p buffer_flush_text [of s]
    by (simp add: stdout_text_def buffer_flush_fields)
  moreover have "stdout_text (s\<lparr>buffered := buffered s @ b\<rparr>) = stdout_text s @ b"
    using p by (simp add: stdout_text_def)
  ultimately show ?thesis by (simp add: buffered_write_def Let_def)
qed

lemma buffered_write_pending: "pending (buffered_write n b s) = pending s"
  by (simp add: buffered_write_def Let_def buffer_flush_fields raw_write_fields)

lemma buffer_write_text:
  "fits m s \<Longrightarrow> pending s = [] \<Longrightarrow> stdout_text (buffer_write m b s) = stdout_text s @ b"
  by (cases m) (simp_all add: fits_def raw_write_text buffered_write_text)

lemma buffer_write_fits: "fits m s \<Longrightarrow> fits m (buffer_write m b s)"
  by (cases m) (simp_all add: fits_def raw_write_fields)

lemma buffer_write_pending: "pending (buffer_write m b s) = pending s"
  by (cases m) (simp_all add: raw_write_fields buffered_write_pending)

lemma text_writeflush_text: "fits m s \<Longrightarrow> stdout_text (text_writeflush m s) = stdout_text s"
proof -
  assume f: "fits m s"
  then have "fits m (s\<lparr>pending := []\<rparr>)" by (simp add: fits_def)
  then have "stdout_text (buffer_write m (pending s) (s\<lparr>pending := []\<rparr>))
      = stdout_text (s\<lparr>pending := []\<rparr>) @ pending s"
    by (simp add: buffer_write_text)
  then show ?thesis by (simp add: text_writeflush_def stdout_text_def)
qed

lemma text_writeflush_fits:
  assumes "fits m s"
  shows "fits m (text_writeflush m s)"
proof -
  from assms have "fits m (s\<lparr>pending := []\<rparr>)" by (simp add: fits_def)
  then have "fits m (buffer_write m (pending s) (s\<lparr>pending := []\<rparr>))"
    by (rule buffer_write_fits)
  with assms show ?thesis by (simp add: text_writeflush_def)
qed

lemma text_writeflush_pending: "pending (text_writeflush m s) = []"
  by (simp add: text_writeflush_def buffer_write_pending)

lemma buffer_flush_fits: "fits m (buffer_flush s)"
  by (simp add: fits_def buffer_flush_fields)

lemma append_pending_text: "stdout_text (s\<lparr>pending := pending s @ t\<rparr>) = stdout_text s @ t"
  by (simp add: stdout_text_def)

lemma text_write_text:
  assumes "fits m s"
  shows "stdout_text (text_write m t s) = stdout_text s @ t" and "fits m (text_write m t s)"
proof -
  define s1 where "s1 = (if chunk_size \<le> length t then text_writeflush m s else s)"
  define s2 where "s2 = s1\<lparr>pending := pending s1 @ t\<rparr>"
  have 1: "fits m s1" "stdout_text s1 = stdout_text s"
    using assms by (simp_all add: s1_def text_writeflush_fits text_writeflush_text)
  have 2: "fits m s2" "stdout_text s2 = stdout_text s @ t"
    using 1 by (simp_all add: s2_def fits_def append_pending_text)
  have 3: "fits m (text_writeflush m s2)" "stdout_text (text_writeflush m s2) = stdout_text s @ t"
    using 2 by (simp_all add: text_writeflush_fits text_writeflush_text)
  show "stdout_text (text_write m t s) = stdout_text s @ t"
    using 2 3 by (simp add: text_write_def Let_def s1_def [symmetric] s2_def [symmetric] buffer_flush_text)
  show "fits m (text_write m t s)"
    using 2 3 by (simp add: text_write_def Let_def s1_def [symmetric] s2_def [symmetric] buffer_flush_fits)
qed

lemma py_print_text:
  "fits m s \<Longrightarrow> stdout_text (py_print m t s) = stdout_text s @ t @ [CHR 0x0A]"
  by (simp add: py_print_def text_write_text)

lemma startup_text: "fits m startup" "stdout_text startup = []"
  by (simp_all add: fits_def startup_def stdout_text_def)

subsection \<open>The effects of a run\<close>

lemma main_state:
  "snd (main w s) =
     (py_print (stdout w) (command (dunder_file w)) s)
       \<lparr>effects := effects (py_print (stdout w) (command (dunder_file w)) s)
                    @ [Shell_exec (command (dunder_file w))]\<rparr>"
  by (simp add: main_def os_system_def Let_def split: option.split)

lemma main_outcome:
  "fst (main w s) =
     (case shell w (command (dunder_file w)) (cwd w) (environ w) of
        None \<Rightarrow> Blocked | Some rc \<Rightarrow> Returned ())"
  by (simp add: main_def os_system_def Let_def split: option.split)

lemma main_others:
  "filter (\<lambda>e. \<not> is_stdout_write e) (effects (snd (main w s)))
     = filter (\<lambda>e. \<not> is_stdout_write e) (effects s) @ [Shell_exec (command (dunder_file w))]"
  by (simp add: main_state py_print_others)

lemma main_executed:
  "executed (effects (snd (main w s))) = executed (effects s) @ [command (dunder_file w)]"
  using main_others [of w s] executed_others [of "effects (snd (main w s))"]
    executed_others [of "effects s"]
  by (simp add: executed_append)


lemma main_text:
  "fits (stdout w) s \<Longrightarrow>
   stdout_text (snd (main w s)) = stdout_text s @ command (dunder_file w) @ [CHR 0x0A]"
  using py_print_text [of "stdout w" s "command (dunder_file w)"]
  by (simp add: main_state stdout_text_def printed_append)

lemma startup_effects: "effects startup = []"
  by (simp add: startup_def)


lemma only_writes:
  "filter (\<lambda>e. \<not> is_stdout_write e) tr = [] \<Longrightarrow> tr = map Stdout_write (printed tr)"
proof (induction tr)
  case Nil
  show ?case by simp
next
  case (Cons e tr)
  then show ?case by (cases e) (auto split: if_splits)
qed

lemma print_flushed:
  assumes "line_buffering m \<or> write_through m" and "fits m s"
  shows "pending (py_print m t s) = []" and "buffered (py_print m t s) = []"
proof -
  define s1 where "s1 = text_write m t s"
  have f: "fits m s1" unfolding s1_def using assms(2) by (rule text_write_text(2))
  define s2 where "s2 = (if chunk_size \<le> length [CHR 0x0A] then text_writeflush m s1 else s1)"
  define s3 where "s3 = text_writeflush m (s2\<lparr>pending := pending s2 @ [CHR 0x0A]\<rparr>)"
  have f2: "fits m s2" using f by (simp add: s2_def text_writeflush_fits)
  then have f3: "fits m s3" unfolding s3_def by (intro text_writeflush_fits) (simp add: fits_def)
  have p3: "pending s3 = []" unfolding s3_def by (rule text_writeflush_pending)
  have e: "py_print m t s = (if line_buffering m then buffer_flush s3 else s3)"
    using assms(1)
    by (auto simp: py_print_def text_write_def [of m "[CHR 0x0A]"] Let_def s1_def s2_def s3_def)
  show "pending (py_print m t s) = []"
    by (simp add: e p3 buffer_flush_fields)
  show "buffered (py_print m t s) = []"
  proof (cases "line_buffering m")
    case True
    then show ?thesis by (simp add: e buffer_flush_fields)
  next
    case False
    then have b: "buffered (py_print m t s) = buffered s3" by (simp add: e)
    from False assms(1) have "m = Unbuffered" by (cases m) simp_all
    with f3 have "buffered s3 = []" by (simp add: fits_def)
    with b show ?thesis by simp
  qed
qed

text \<open>
  On a terminal, or unbuffered, the whole line has reached standard output when the command
  is handed to the shell.
\<close>

lemma flushed_print_before_exec:
  assumes "line_buffering (stdout w) \<or> write_through (stdout w)"
  shows "\<exists>ws. effects (snd (main w startup)) = map Stdout_write ws @ [Shell_exec (command (dunder_file w))]
              \<and> concat ws = command (dunder_file w) @ [CHR 0x0A]"
proof -
  define s1 where "s1 = py_print (stdout w) (command (dunder_file w)) startup"
  have "pending s1 = []" "buffered s1 = []"
    unfolding s1_def using assms startup_text(1) by (rule print_flushed)+
  moreover have "stdout_text s1 = command (dunder_file w) @ [CHR 0x0A]"
    unfolding s1_def by (simp add: py_print_text startup_text)
  ultimately have c: "concat (printed (effects s1)) = command (dunder_file w) @ [CHR 0x0A]"
    by (simp add: stdout_text_def)
  have "filter (\<lambda>e. \<not> is_stdout_write e) (effects s1) = []"
    unfolding s1_def by (simp add: py_print_others startup_effects)
  then have "effects s1 = map Stdout_write (printed (effects s1))" by (rule only_writes)
  then have "effects (snd (main w startup))
      = map Stdout_write (printed (effects s1)) @ [Shell_exec (command (dunder_file w))]"
    by (simp add: main_state s1_def [symmetric])
  with c show ?thesis by blast
qed

text \<open>
  Block-buffered, a line shorter than a chunk stays in \<^verbatim>\<open>sys.stdout\<close> until the interpreter
  exits: the shell runs first.
\<close>

lemma block_buffered_print:
  assumes "Suc (length t) < chunk_size"
  shows "py_print (Block_buffered n) t startup = startup\<lparr>pending := t @ [CHR 0x0A]\<rparr>"
  using assms by (simp add: py_print_def text_write_def Let_def startup_def chunk_size_def)

lemma block_buffered_exec_before_print:
  assumes "stdout w = Block_buffered n"
    and "Suc (length (command (dunder_file w))) < chunk_size"
    and "dunder_name w = ''__main__''"
    and "shell w (command (dunder_file w)) (cwd w) (environ w) = Some rc"
  shows "effects (snd (python3 w startup))
           = [Shell_exec (command (dunder_file w)),
              Stdout_write (command (dunder_file w) @ [CHR 0x0A])]"
proof -
  have m: "snd (main w startup)
      = \<lparr>effects = [Shell_exec (command (dunder_file w))], buffered = [],
         pending = command (dunder_file w) @ [CHR 0x0A]\<rparr>"
    using assms(1,2) by (simp add: main_state block_buffered_print) (simp add: startup_def)
  have r: "fst (main w startup) = Returned ()"
    using assms(4) by (simp add: main_outcome)
  have "python3 w startup = (Returned (), text_flush (stdout w) (snd (main w startup)))"
    using assms(3) r by (cases "main w startup") (simp add: python3_def script_def)
  then show ?thesis
    using assms(1)
    by (simp add: m text_flush_def text_writeflush_def buffered_write_def buffer_flush_def
        raw_write_def Let_def)
qed

lemma line_buffered_print:
  assumes "Suc (length t) < chunk_size" and "Suc (length t) \<le> n"
    and "CHR 0x0A \<notin> set t" and "CHR 0x0D \<notin> set t"
  shows "py_print (Line_buffered n) t startup = startup\<lparr>effects := [Stdout_write (t @ [CHR 0x0A])]\<rparr>"
  using assms
  by (simp add: py_print_def text_write_def text_writeflush_def buffered_write_def
      buffer_flush_def raw_write_def Let_def startup_def chunk_size_def)

text \<open>
  Given by an absolute path, the script has that path as its \<^verbatim>\<open>__file__\<close>, whatever the
  working directory.
\<close>

lemma absolute_script_path:
  "take 1 (script_path w) = ''/'' \<Longrightarrow> dunder_file w = script_path w"
  by (auto simp: dunder_file_def abspath_def)

subsection \<open>The constructed command\<close>



text \<open>
  C2. Whatever the world of the run, the command is the fixed text
  \<^verbatim>\<open>npx @openapitools/openapi-generator-cli generate -g typescript-fetch\<close> followed by
  \<^verbatim>\<open>-i\<close>, \<^verbatim>\<open>-o\<close> and \<^verbatim>\<open>-c\<close> with the three paths, and this is the command executed.
\<close>

theorem command_shape:
  "command (dunder_file w) =
     ''npx @openapitools/openapi-generator-cli'' @ '' generate'' @ '' -g typescript-fetch''
       @ '' -i '' @ str_path (spec (dunder_file w))
       @ '' -o '' @ str_path (generated (dunder_file w))
       @ '' -c '' @ str_path (config (dunder_file w))
   \<and> executed (effects (snd (main w startup))) = [command (dunder_file w)]
   \<and> prefix ''npx @openapitools/openapi-generator-cli generate -g typescript-fetch -i ''
        (command (dunder_file w))"
  by (simp add: command_def [of "dunder_file w"] main_executed startup_effects)

text \<open>
  C9. The config argument is the output-directory argument followed by
  \<^verbatim>\<open>/config.json\<close>, the input argument is the project root extended by
  \<^verbatim>\<open>openapi.json\<close>, and the three paths have the root and the components of the project
  root as their beginning.
\<close>

theorem config_extends_generated:
  "command P =
     ''npx @openapitools/openapi-generator-cli generate -g typescript-fetch''
       @ '' -i '' @ str_path (truediv (project_root P) ''openapi.json'')
       @ '' -o '' @ str_path (generated P)
       @ '' -c '' @ (str_path (generated P) @ ''/config.json'')
   \<and> config P = \<lparr>root = root (generated P), tail = tail (generated P) @ [''config.json'']\<rparr>
   \<and> spec P = \<lparr>root = root (project_root P), tail = tail (project_root P) @ [''openapi.json'']\<rparr>
   \<and> root (spec P) = root (project_root P) \<and> prefix (tail (project_root P)) (tail (spec P))
   \<and> root (generated P) = root (project_root P) \<and> prefix (tail (project_root P)) (tail (generated P))
   \<and> root (config P) = root (project_root P) \<and> prefix (tail (project_root P)) (tail (config P))"
proof -
  have g: "[] \<notin> set (tail (generated P))" "tail (generated P) \<noteq> []"
    using tail_project_root_nonempty [of P] by (auto simp: generated_eq)
  have "config P = \<lparr>root = root (generated P), tail = tail (generated P) @ [''config.json'']\<rparr>"
    by (simp add: config_eq generated_eq)
  then have "str_path (config P) = path_under (generated P) ''config.json''"
    using str_path_extend [of "''config.json''" "generated P"] g by simp
  with g have c: "str_path (config P) = str_path (generated P) @ ''/config.json''"
    by (simp add: path_under_def)
  show ?thesis
    by (simp add: command_def c spec_def [symmetric]) (simp add: spec_eq generated_eq config_eq)
qed

text \<open>
  C6. The paths are put into the command as they print, with no quoting and no escaping:
  a location with a space and a semicolon gives a command with both, bare; each printed path
  is a contiguous part of the command; and every character of the command is a character of
  the location or of the fixed texts of the source.
\<close>

theorem paths_inserted_verbatim:
  "command ''/srv/my proj;x/scripts/gen-api.py'' =
     ''npx @openapitools/openapi-generator-cli generate -g typescript-fetch -i /srv/my proj;x/openapi.json -o /srv/my proj;x/src/api/generated -c /srv/my proj;x/src/api/generated/config.json''
   \<and> sublist (str_path (spec P)) (command P)
   \<and> sublist (str_path (generated P)) (command P)
   \<and> sublist (str_path (config P)) (command P)
   \<and> set (command P) \<subseteq> set P \<union> set ''npx @openapitools/openapi-generator-cli generate -g typescript-fetch -i -o -c openapi.json src/api/generated/config.json''"
proof (intro conjI)
  show "command ''/srv/my proj;x/scripts/gen-api.py'' =
     ''npx @openapitools/openapi-generator-cli generate -g typescript-fetch -i /srv/my proj;x/openapi.json -o /srv/my proj;x/src/api/generated -c /srv/my proj;x/src/api/generated/config.json''"
    by (simp add: command_def spec_def generated_def config_def project_root_def script_file_def
        truediv_def parent_def Path_def splitroot_def str_path_def)
  show "sublist (str_path (spec P)) (command P)"
    unfolding command_def by (rule sublist_appendI)
  have "command P =
      (''npx @openapitools/openapi-generator-cli generate -g typescript-fetch -i ''
         @ str_path (spec P) @ '' -o '')
      @ str_path (generated P) @ ('' -c '' @ str_path (config P))"
    by (simp add: command_def)
  then show "sublist (str_path (generated P)) (command P)"
    by (metis sublist_appendI)
  have "command P =
      (''npx @openapitools/openapi-generator-cli generate -g typescript-fetch -i ''
         @ str_path (spec P) @ '' -o '' @ str_path (generated P) @ '' -c '')
      @ str_path (config P) @ []"
    by (simp add: command_def)
  then show "sublist (str_path (config P)) (command P)"
    by (metis sublist_appendI)
  show "set (command P) \<subseteq> set P \<union> set ''npx @openapitools/openapi-generator-cli generate -g typescript-fetch -i -o -c openapi.json src/api/generated/config.json''"
    by (rule command_chars)
qed

subsection \<open>Independence of the surroundings\<close>

text \<open>
  C5. The resolved paths do depend on the working directory when the script is given by a
  relative path. The script \<^verbatim>\<open>/p/scripts/gen-api.py\<close>, run as \<^verbatim>\<open>scripts/gen-api.py\<close> from
  \<^verbatim>\<open>/p\<close> and as \<^verbatim>\<open>../gen-api.py\<close> from \<^verbatim>\<open>/p/scripts/sub\<close>, is at one location, but
  \<^verbatim>\<open>__file__\<close> is \<^verbatim>\<open>/p/scripts/gen-api.py\<close> in the first run and
  \<^verbatim>\<open>/p/scripts/sub/../gen-api.py\<close> in the second; the parents are taken on the text, so the
  first command names \<^verbatim>\<open>/p/openapi.json\<close> and the second \<^verbatim>\<open>/p/scripts/sub/openapi.json\<close>,
  which is not under the project root.
\<close>

theorem relative_invocation_changes_paths:
  "location (run_at ''scripts/gen-api.py'' ''/p'' [] [] (Some 0))
     = location (run_at ''../gen-api.py'' ''/p/scripts/sub'' [] [] (Some 0))
   \<and> cwd (run_at ''scripts/gen-api.py'' ''/p'' [] [] (Some 0))
     \<noteq> cwd (run_at ''../gen-api.py'' ''/p/scripts/sub'' [] [] (Some 0))
   \<and> dunder_file (run_at ''scripts/gen-api.py'' ''/p'' [] [] (Some 0)) = ''/p/scripts/gen-api.py''
   \<and> dunder_file (run_at ''../gen-api.py'' ''/p/scripts/sub'' [] [] (Some 0)) = ''/p/scripts/sub/../gen-api.py''
   \<and> command (dunder_file (run_at ''scripts/gen-api.py'' ''/p'' [] [] (Some 0)))
     = ''npx @openapitools/openapi-generator-cli generate -g typescript-fetch -i /p/openapi.json -o /p/src/api/generated -c /p/src/api/generated/config.json''
   \<and> command (dunder_file (run_at ''../gen-api.py'' ''/p/scripts/sub'' [] [] (Some 0)))
     = ''npx @openapitools/openapi-generator-cli generate -g typescript-fetch -i /p/scripts/sub/openapi.json -o /p/scripts/sub/src/api/generated -c /p/scripts/sub/src/api/generated/config.json''"
proof -
  have f: "dunder_file (run_at ''scripts/gen-api.py'' ''/p'' [] [] (Some 0)) = ''/p/scripts/gen-api.py''"
    "dunder_file (run_at ''../gen-api.py'' ''/p/scripts/sub'' [] [] (Some 0)) = ''/p/scripts/sub/../gen-api.py''"
    by (simp_all add: run_at_def dunder_file_def abspath_def)
  have l: "location (run_at ''scripts/gen-api.py'' ''/p'' [] [] (Some 0))
     = location (run_at ''../gen-api.py'' ''/p/scripts/sub'' [] [] (Some 0))"
    by (simp add: location_def f Path_def splitroot_def)
  have d: "cwd (run_at ''scripts/gen-api.py'' ''/p'' [] [] (Some 0))
     \<noteq> cwd (run_at ''../gen-api.py'' ''/p/scripts/sub'' [] [] (Some 0))"
    by (simp add: run_at_def)
  have c: "command ''/p/scripts/gen-api.py''
     = ''npx @openapitools/openapi-generator-cli generate -g typescript-fetch -i /p/openapi.json -o /p/src/api/generated -c /p/src/api/generated/config.json''"
    "command ''/p/scripts/sub/../gen-api.py''
     = ''npx @openapitools/openapi-generator-cli generate -g typescript-fetch -i /p/scripts/sub/openapi.json -o /p/scripts/sub/src/api/generated -c /p/scripts/sub/src/api/generated/config.json''"
    by (simp_all add: command_def spec_def generated_def config_def project_root_def script_file_def
        truediv_def parent_def Path_def splitroot_def str_path_def)
  from f l d c show ?thesis by simp
qed

text \<open>
  C7. Two runs from the same location, whatever their command-line arguments and
  environment variables, execute the same command and write the same text to
  \<^verbatim>\<open>sys.stdout\<close>, the command and a newline; with the same set-up of standard output they
  leave the same effects altogether.
\<close>

theorem argv_environ_not_consumed:
  assumes "dunder_file w1 = dunder_file w2"
  shows "executed (effects (snd (main w1 s))) = executed (effects (snd (main w2 s)))
         \<and> stdout_text (snd (main w1 startup)) = stdout_text (snd (main w2 startup))
         \<and> stdout_text (snd (main w1 startup)) = command (dunder_file w2) @ [CHR 0x0A]
         \<and> executed (effects (snd (main w1 startup))) = [command (dunder_file w2)]
         \<and> (stdout w1 = stdout w2 \<longrightarrow> snd (main w1 s) = snd (main w2 s))"
proof (intro conjI impI)
  show "executed (effects (snd (main w1 s))) = executed (effects (snd (main w2 s)))"
    using assms by (simp add: main_executed)
  show "stdout_text (snd (main w1 startup)) = stdout_text (snd (main w2 startup))"
    using assms by (simp add: main_text startup_text)
  show "stdout_text (snd (main w1 startup)) = command (dunder_file w2) @ [CHR 0x0A]"
    using assms by (simp add: main_text startup_text)
  show "executed (effects (snd (main w1 startup))) = [command (dunder_file w2)]"
    using assms by (simp add: main_executed startup_effects)
  show "snd (main w1 s) = snd (main w2 s)" if "stdout w1 = stdout w2"
    using assms that by (simp add: main_state)
qed

theorem argv_environ_not_consumed_witness:
  "snd (main (run_at ''/p/scripts/gen-api.py'' ''/p'' [''--help''] [(''HOME'', ''/root'')] (Some 0)) startup)
     = snd (main (run_at ''/p/scripts/gen-api.py'' ''/p'' [] [] (Some 0)) startup)
   \<and> stdout_text (snd (main (run_at ''/p/scripts/gen-api.py'' ''/p'' [''--help''] [(''HOME'', ''/root'')] (Some 0)) startup))
     = stdout_text (snd (main (run_at ''/p/scripts/gen-api.py'' ''/p'' [] [] (Some 0)) startup))
   \<and> executed (effects (snd (main (run_at ''/p/scripts/gen-api.py'' ''/p'' [''--help''] [(''HOME'', ''/root'')] (Some 0)) startup)))
     = executed (effects (snd (main (run_at ''/p/scripts/gen-api.py'' ''/p'' [] [] (Some 0)) startup)))"
proof -
  have h: "dunder_file (run_at ''/p/scripts/gen-api.py'' ''/p'' [''--help''] [(''HOME'', ''/root'')] (Some 0))
     = dunder_file (run_at ''/p/scripts/gen-api.py'' ''/p'' [] [] (Some 0))"
    by (simp add: run_at_def dunder_file_def)
  have o: "stdout (run_at ''/p/scripts/gen-api.py'' ''/p'' [''--help''] [(''HOME'', ''/root'')] (Some 0))
     = stdout (run_at ''/p/scripts/gen-api.py'' ''/p'' [] [] (Some 0))"
    by (simp add: run_at_def)
  show ?thesis
    using o argv_environ_not_consumed [OF h, of startup] by blast
qed

subsection \<open>Order, number and kind of effects\<close>

text \<open>
  C4. The command does not always reach standard output before the shell runs. With
  standard output sent to a pipe or a file, \<^verbatim>\<open>print\<close> leaves the line in \<^verbatim>\<open>sys.stdout\<close>:
  when \<^verbatim>\<open>main\<close> has handed the command to the shell nothing has been written, and the
  line is written when the interpreter exits, after the subordinate process. On a terminal
  the same run writes the line first.
\<close>

theorem piped_run_prints_after_exec:
  "effects (snd (main (piped (run_at ''/p/scripts/gen-api.py'' ''/p'' [] [] (Some 0))) startup))
     = [Shell_exec ''npx @openapitools/openapi-generator-cli generate -g typescript-fetch -i /p/openapi.json -o /p/src/api/generated -c /p/src/api/generated/config.json'']
   \<and> pending (snd (main (piped (run_at ''/p/scripts/gen-api.py'' ''/p'' [] [] (Some 0))) startup))
     = ''npx @openapitools/openapi-generator-cli generate -g typescript-fetch -i /p/openapi.json -o /p/src/api/generated -c /p/src/api/generated/config.json'' @ [CHR 0x0A]
   \<and> effects (snd (python3 (piped (run_at ''/p/scripts/gen-api.py'' ''/p'' [] [] (Some 0))) startup))
     = [Shell_exec ''npx @openapitools/openapi-generator-cli generate -g typescript-fetch -i /p/openapi.json -o /p/src/api/generated -c /p/src/api/generated/config.json'',
        Stdout_write (''npx @openapitools/openapi-generator-cli generate -g typescript-fetch -i /p/openapi.json -o /p/src/api/generated -c /p/src/api/generated/config.json'' @ [CHR 0x0A])]
   \<and> effects (snd (python3 (run_at ''/p/scripts/gen-api.py'' ''/p'' [] [] (Some 0)) startup))
     = [Stdout_write (''npx @openapitools/openapi-generator-cli generate -g typescript-fetch -i /p/openapi.json -o /p/src/api/generated -c /p/src/api/generated/config.json'' @ [CHR 0x0A]),
        Shell_exec ''npx @openapitools/openapi-generator-cli generate -g typescript-fetch -i /p/openapi.json -o /p/src/api/generated -c /p/src/api/generated/config.json'']"
proof -
  define cmd where "cmd = ''npx @openapitools/openapi-generator-cli generate -g typescript-fetch -i /p/openapi.json -o /p/src/api/generated -c /p/src/api/generated/config.json''"
  define tw where "tw = run_at ''/p/scripts/gen-api.py'' ''/p'' [] [] (Some 0)"
  define pw where "pw = piped tw"
  have c: "command ''/p/scripts/gen-api.py'' = cmd"
    unfolding cmd_def
    by (simp add: command_def spec_def generated_def config_def project_root_def script_file_def
        truediv_def parent_def Path_def splitroot_def str_path_def)
  have len: "Suc (length cmd) < chunk_size" "Suc (length cmd) \<le> 8192"
    unfolding cmd_def by (simp_all add: chunk_size_def)
  have nl: "CHR 0x0A \<notin> set cmd" "CHR 0x0D \<notin> set cmd"
    unfolding cmd_def by simp_all
  have pf: "dunder_file pw = ''/p/scripts/gen-api.py''" "stdout pw = Block_buffered 4096"
    "dunder_name pw = ''__main__''" "shell pw cmd (cwd pw) (environ pw) = Some 0"
    unfolding pw_def tw_def by (simp_all add: piped_def run_at_def dunder_file_def abspath_def)
  have tf: "dunder_file tw = ''/p/scripts/gen-api.py''" "stdout tw = Line_buffered 8192"
    "dunder_name tw = ''__main__''" "shell tw cmd (cwd tw) (environ tw) = Some 0"
    unfolding tw_def by (simp_all add: run_at_def dunder_file_def abspath_def)
  have pm: "snd (main pw startup) = \<lparr>effects = [Shell_exec cmd], buffered = [], pending = cmd @ [CHR 0x0A]\<rparr>"
    using len(1) by (simp add: main_state pf c block_buffered_print) (simp add: startup_def)
  have pr: "effects (snd (python3 pw startup)) = [Shell_exec cmd, Stdout_write (cmd @ [CHR 0x0A])]"
    using block_buffered_exec_before_print [of pw 4096 0] pf len(1) by (simp add: c)
  have tm: "snd (main tw startup) = \<lparr>effects = [Stdout_write (cmd @ [CHR 0x0A]), Shell_exec cmd],
      buffered = [], pending = []\<rparr>"
    using len nl by (simp add: main_state tf c line_buffered_print) (simp add: startup_def)
  have "fst (main tw startup) = Returned ()"
    by (simp add: main_outcome tf c)
  then have "python3 tw startup = (Returned (), text_flush (stdout tw) (snd (main tw startup)))"
    using tf(3) by (cases "main tw startup") (simp add: python3_def script_def)
  then have tr: "effects (snd (python3 tw startup)) = [Stdout_write (cmd @ [CHR 0x0A]), Shell_exec cmd]"
    by (simp add: tm text_flush_def text_writeflush_def buffer_flush_def raw_write_def)
  from pm pr tr show ?thesis
    unfolding pw_def tw_def cmd_def by simp
qed

text \<open>
  C8. Every run hands exactly one command to the shell, whatever status comes back, and
  \<^verbatim>\<open>main\<close> returns exactly when that subordinate process has completed: while it has
  not, the run is blocked.
\<close>

theorem one_invocation:
  "executed (effects (snd (main w startup))) = [command (dunder_file w)]
   \<and> (fst (main w startup) = Returned ())
       = (\<exists>rc. shell w (command (dunder_file w)) (cwd w) (environ w) = Some rc)
   \<and> (fst (main w startup) = Blocked)
       = (shell w (command (dunder_file w)) (cwd w) (environ w) = None)"
  by (simp add: main_executed main_outcome startup_effects split: option.split)


subsection \<open>The exit status\<close>

text \<open>
  C3. When the script runs as the main program and the subordinate command completes,
  with whatever status (success, a failing exit, command not found), the exit status of
  the script is \<open>0\<close>, and the command has been executed once.
\<close>

theorem exit_status_ignores_subordinate:
  assumes "dunder_name w = ''__main__''"
    and "shell w (command (dunder_file w)) (cwd w) (environ w) = Some rc"
  shows "exit_status (script w startup) = Some 0
         \<and> executed (effects (snd (script w startup))) = [command (dunder_file w)]
         \<and> exit_status (python3 w startup) = Some 0"
proof -
  from assms have "fst (script w startup) = Returned ()"
    by (simp add: script_def main_outcome)
  then have "fst (python3 w startup) = Returned ()"
    by (cases "script w startup") (simp add: python3_def)
  with assms show ?thesis
    by (simp add: exit_status_def script_def main_outcome main_executed startup_effects)
qed

theorem exit_status_ignores_subordinate_witness:
  "exit_status (script (run_at ''/p/scripts/gen-api.py'' ''/'' [] [] (Some 0)) startup) = Some 0
   \<and> exit_status (script (run_at ''/p/scripts/gen-api.py'' ''/'' [] [] (Some 256)) startup) = Some 0
   \<and> exit_status (script (run_at ''/p/scripts/gen-api.py'' ''/'' [] [] (Some 32512)) startup) = Some 0
   \<and> executed (effects (snd (script (run_at ''/p/scripts/gen-api.py'' ''/'' [] [] (Some 32512)) startup)))
       = [''npx @openapitools/openapi-generator-cli generate -g typescript-fetch -i /p/openapi.json -o /p/src/api/generated -c /p/src/api/generated/config.json'']"
proof -
  have n: "\<And>st. dunder_name (run_at ''/p/scripts/gen-api.py'' ''/'' [] [] st) = ''__main__''"
    by (simp add: run_at_def)
  have s: "\<And>rc. shell (run_at ''/p/scripts/gen-api.py'' ''/'' [] [] (Some rc))
             (command (dunder_file (run_at ''/p/scripts/gen-api.py'' ''/'' [] [] (Some rc))))
             (cwd (run_at ''/p/scripts/gen-api.py'' ''/'' [] [] (Some rc)))
             (environ (run_at ''/p/scripts/gen-api.py'' ''/'' [] [] (Some rc))) = Some rc"
    by (simp add: run_at_def)
  have c: "command ''/p/scripts/gen-api.py'' = ''npx @openapitools/openapi-generator-cli generate -g typescript-fetch -i /p/openapi.json -o /p/src/api/generated -c /p/src/api/generated/config.json''"
    by (simp add: command_def spec_def generated_def config_def project_root_def script_file_def
        truediv_def parent_def Path_def splitroot_def str_path_def)
  have f: "\<And>st. dunder_file (run_at ''/p/scripts/gen-api.py'' ''/'' [] [] st) = ''/p/scripts/gen-api.py''"
    by (simp add: run_at_def dunder_file_def abspath_def)
  show ?thesis
    using exit_status_ignores_subordinate [OF n s, of 0]
      exit_status_ignores_subordinate [OF n s, of 256]
      exit_status_ignores_subordinate [OF n s, of 32512]
    by (simp add: f c)
qed

end
